theory Spec2Isabelle
  imports Complex_Main
begin

section \<open>The coupon model of \<^verbatim>\<open>ecommerce/static/js/models/coupon_model.js\<close>\<close>

text \<open>
  The coupon model is a Backbone relational model: a hash of attributes read with
  \<^verbatim>\<open>get\<close> and written with \<^verbatim>\<open>set\<close>, two change handlers, a
  table of validators and an overridden \<^verbatim>\<open>save\<close> that shapes the request body.
  The embedding below follows the file top to bottom. JavaScript values, the builtins
  and the libraries the file calls (Underscore, Backbone, Backbone.Validation, moment)
  are modelled first, as far as the file uses them.
\<close>

subsection \<open>JavaScript values\<close>

text \<open>
  Numbers are IEEE doubles in JavaScript. A finite double is a rational number, so
  \<open>Fin q\<close> carries its exact value; negative zero is identified with zero. No
  arithmetic is done on numbers in this file: they are only parsed, stored, compared and
  tested for truthiness.
\<close>

datatype jsnum = NaN | PosInf | NegInf | Fin rat

text \<open>
  The primitive values an attribute of the coupon can hold. Strings are lists of 8-bit
  characters. The two attributes that hold objects (\<^verbatim>\<open>course\<close> and
  \<^verbatim>\<open>seatTypes\<close>) are kept in typed fields of the state, see below.
\<close>

datatype jsval = JUndefined | JNull | JBool bool | JNum jsnum | JStr string

text \<open>\<^verbatim>\<open>a === b\<close> on primitives: same type and same value, and NaN equals nothing.\<close>

definition strict_eq :: "jsval \<Rightarrow> jsval \<Rightarrow> bool" where
  "strict_eq a b = (a = b \<and> a \<noteq> JNum NaN)"

text \<open>Truthiness, as \<^verbatim>\<open>x || ''\<close> tests it.\<close>

fun truthy :: "jsval \<Rightarrow> bool" where
  "truthy JUndefined = False"
| "truthy JNull = False"
| "truthy (JBool b) = b"
| "truthy (JNum n) = (n \<noteq> NaN \<and> n \<noteq> Fin 0)"
| "truthy (JStr s) = (s \<noteq> [])"

text \<open>
  Underscore's \<^verbatim>\<open>_.isEmpty\<close>: true for \<^verbatim>\<open>null\<close> and
  \<^verbatim>\<open>undefined\<close>, for the empty string, and for every value that has no
  enumerable own keys, which includes every number and boolean.
\<close>

fun isEmpty :: "jsval \<Rightarrow> bool" where
  "isEmpty JUndefined = True"
| "isEmpty JNull = True"
| "isEmpty (JBool b) = True"
| "isEmpty (JNum n) = True"
| "isEmpty (JStr s) = (s = [])"

text \<open>
  \<^verbatim>\<open>String.prototype.trim\<close> on 8-bit characters: tab, line feed, vertical tab,
  form feed, carriage return, space and no-break space are white space.
\<close>

definition is_ws :: "char \<Rightarrow> bool" where
  "is_ws c = (c \<in> {CHR 0x09, CHR 0x0A, CHR 0x0B, CHR 0x0C, CHR 0x0D, CHR 0x20, CHR 0xA0})"

definition trim :: "string \<Rightarrow> string" where
  "trim s = rev (dropWhile is_ws (rev (dropWhile is_ws s)))"

text \<open>
  Backbone.Validation's \<^verbatim>\<open>hasValue\<close>: a value is missing when it is
  \<^verbatim>\<open>null\<close>, \<^verbatim>\<open>undefined\<close> or a string that trims to the empty string.
\<close>

fun hasValue :: "jsval \<Rightarrow> bool" where
  "hasValue JUndefined = False"
| "hasValue JNull = False"
| "hasValue (JStr s) = (trim s \<noteq> [])"
| "hasValue (JBool b) = True"
| "hasValue (JNum n) = True"

subsection \<open>Regular expressions, as far as the course id pattern needs them\<close>

text \<open>
  The pattern \<^verbatim>\<open>/[^/+]+(\/|\+)[^/+]+(\/|\+)[^/]+/\<close> is a sequence of five
  items: a character class repeated one or more times, or a group that alternates two
  one-character literals, which is one character out of a class. It has no anchors and
  no flags.
\<close>

datatype cclass = AnyOf string | NoneOf string

fun in_class :: "cclass \<Rightarrow> char \<Rightarrow> bool" where
  "in_class (AnyOf cs) c = (c \<in> set cs)"
| "in_class (NoneOf cs) c = (c \<notin> set cs)"

datatype atom = One cclass | Many cclass

type_synonym regex = "atom list"

text \<open>\<open>match_here r s\<close>: some prefix of \<open>s\<close> matches the whole of \<open>r\<close>.\<close>

fun match_here :: "regex \<Rightarrow> string \<Rightarrow> bool" where
  "match_here [] s = True"
| "match_here (One k # r) [] = False"
| "match_here (One k # r) (c # cs) = (in_class k c \<and> match_here r cs)"
| "match_here (Many k # r) [] = False"
| "match_here (Many k # r) (c # cs) =
     (in_class k c \<and> (match_here (Many k # r) cs \<or> match_here r cs))"

text \<open>
  \<^verbatim>\<open>s.match(r)\<close> for a pattern without the global flag returns the first match
  or \<^verbatim>\<open>null\<close>; \<open>search r s\<close> says that it is not \<^verbatim>\<open>null\<close>: the
  pattern matches at some position of \<open>s\<close>.
\<close>

fun search :: "regex \<Rightarrow> string \<Rightarrow> bool" where
  "search r [] = match_here r []"
| "search r (c # cs) = (match_here r (c # cs) \<or> search r cs)"

text \<open>\<^verbatim>\<open>Backbone.Validation.patterns.courseId\<close> (line 28).\<close>

definition courseId :: regex where
  "courseId =
     [Many (NoneOf ''/+''), One (AnyOf ''/+''), Many (NoneOf ''/+''), One (AnyOf ''/+''),
      Many (NoneOf ''/'')]"

subsection \<open>Courses, seats and stock records\<close>

text \<open>
  A course as the catalogue returns it with \<^verbatim>\<open>include_products\<close>: its products
  (seats), each with a \<^verbatim>\<open>certificate_type\<close> and its stock records, each with an
  \<^verbatim>\<open>id\<close>. An attribute that is absent reads as \<^verbatim>\<open>undefined\<close>.
\<close>

record stockrecord =
  sr_id :: jsval

record product =
  certificate_type :: jsval
  stockrecords :: "stockrecord list"

record course =
  products :: "product list"

subsection \<open>What the file takes from its environment\<close>

text \<open>
  The builtins \<^verbatim>\<open>parseInt\<close>, \<^verbatim>\<open>parseFloat\<close> and the conversion of a
  number to a string work on doubles; \<^verbatim>\<open>moment(value, format)\<close> parses
  leniently and against the clock and the time zone of the browser; the methods
  \<^verbatim>\<open>seats\<close> of the course model and \<^verbatim>\<open>getSeatTypeDisplayName\<close> of the
  seat model live in other modules (models/course_model and the seat models). They are the
  parameters of the model: the general theorems below hold for every environment.
  \<open>moment E v f\<close> is the time value of the parsed moment, \<open>None\<close> when the moment
  is not valid.
\<close>

record env =
  parseInt :: "jsval \<Rightarrow> jsnum"
  parseFloat :: "jsval \<Rightarrow> jsnum"
  numToString :: "jsnum \<Rightarrow> string"
  moment :: "jsval \<Rightarrow> string \<Rightarrow> int option"
  seats :: "course \<Rightarrow> product list"
  getSeatTypeDisplayName :: "product \<Rightarrow> jsval"

subsection \<open>The state\<close>

text \<open>
  \<open>attrs\<close> is the attribute hash of the coupon (a key that was never set reads as
  \<^verbatim>\<open>undefined\<close>). \<open>course\<close> is the related Course model, named by its id:
  \<^verbatim>\<open>Course.findOrCreate({id: value})\<close> returns the one Course object of that id,
  creating it without products when the store has none, so \<open>store\<close> is total.
  \<open>listening\<close> has one entry per call of \<^verbatim>\<open>listenTo\<close>, the course listened
  to; \<open>fetches\<close> has one entry per call of \<^verbatim>\<open>fetch\<close> that has not completed.
\<close>

record state =
  attrs :: "string \<Rightarrow> jsval"
  course :: "jsval option"
  seatTypes :: "(jsval \<times> jsval) list option"
  store :: "jsval \<Rightarrow> course"
  listening :: "jsval list"
  fetches :: "jsval list"

datatype error = TypeError

datatype outcome = Done | Threw error

definition model_get :: "state \<Rightarrow> string \<Rightarrow> jsval" where
  "model_get st name = attrs st name"

text \<open>
  The write that \<^verbatim>\<open>set\<close> does to the attribute hash. The file registers
  handlers for two attributes only; \<open>put\<close> is \<^verbatim>\<open>set\<close> for every other one,
  and for a model whose handlers are not registered yet.
\<close>

definition put :: "string \<Rightarrow> jsval \<Rightarrow> state \<Rightarrow> state" where
  "put name v st = st\<lparr>attrs := (attrs st)(name := v)\<rparr>"

subsection \<open>Validation (lines 43 to 94)\<close>

datatype verror = Message string | Required string

definition dateFormat :: string where
  "dateFormat = ''MM/DD/YYYY''"

definition isEnrollmentCode :: "state \<Rightarrow> bool" where
  "isEnrollmentCode st = strict_eq (model_get st ''code_type'') (JStr ''enrollment'')"

definition isDiscountCode :: "state \<Rightarrow> bool" where
  "isDiscountCode st = strict_eq (model_get st ''code_type'') (JStr ''discount'')"

text \<open>
  The \<^verbatim>\<open>pattern\<close> validator of Backbone.Validation rejects a value that is missing
  or whose \<^verbatim>\<open>toString()\<close> does not match.
\<close>

fun matches_courseId :: "env \<Rightarrow> jsval \<Rightarrow> bool" where
  "matches_courseId E JUndefined = False"
| "matches_courseId E JNull = False"
| "matches_courseId E (JStr s) = (hasValue (JStr s) \<and> search courseId s)"
| "matches_courseId E (JBool b) = search courseId (if b then ''true'' else ''false'')"
| "matches_courseId E (JNum n) = search courseId (numToString E n)"

text \<open>
  The \<^verbatim>\<open>required\<close> validator: an error when the value is required and missing.
\<close>

definition required :: "bool \<Rightarrow> string \<Rightarrow> jsval \<Rightarrow> verror option" where
  "required isRequired attr v = (if isRequired \<and> \<not> hasValue v then Some (Required attr) else None)"

text \<open>
  \<^verbatim>\<open>a.isBefore(b)\<close> and \<^verbatim>\<open>a.isAfter(b)\<close> compare the time values and are
  false when either moment is not valid.
\<close>

fun isBefore :: "int option \<Rightarrow> int option \<Rightarrow> bool" where
  "isBefore (Some a) (Some b) = (a < b)"
| "isBefore a b = False"

fun isAfter :: "int option \<Rightarrow> int option \<Rightarrow> bool" where
  "isAfter (Some a) (Some b) = (b < a)"
| "isAfter a b = False"

text \<open>
  In \<^verbatim>\<open>if (endDate && !isBefore)\<close> the left operand is a moment object, which
  is truthy whether or not it is valid, so the test is \<^verbatim>\<open>!isBefore\<close>.
\<close>

definition start_date :: "env \<Rightarrow> state \<Rightarrow> jsval \<Rightarrow> verror option" where
  "start_date E st val =
     (if isEmpty val then Some (Message ''Start date is required'')
      else if moment E val dateFormat = None then Some (Message ''Start date is invalid'')
      else
        let endDate = moment E (model_get st ''end_date'') dateFormat;
            isBefore' = isBefore (moment E val dateFormat) endDate
        in if \<not> isBefore' then Some (Message ''Must occur before end date'') else None)"

definition end_date :: "env \<Rightarrow> state \<Rightarrow> jsval \<Rightarrow> verror option" where
  "end_date E st val =
     (if isEmpty val then Some (Message ''End date is required'')
      else if moment E val dateFormat = None then Some (Message ''End date is invalid'')
      else
        let startDate = moment E (model_get st ''start_date'') dateFormat;
            isAfter' = isAfter (moment E val dateFormat) startDate
        in if \<not> isAfter' then Some (Message ''Must occur after start date'') else None)"

text \<open>
  \<open>validation E st attr\<close> is the error that validating the model reports on the
  attribute \<open>attr\<close>, \<open>None\<close> when it reports none. Attributes without an entry in the
  table are never in error.
\<close>

definition validation :: "env \<Rightarrow> state \<Rightarrow> string \<Rightarrow> verror option" where
  "validation E st attr =
     (let v = model_get st attr in
      if attr = ''course_id'' then
        (if matches_courseId E v then None else Some (Message ''The course ID is invalid.''))
      else if attr = ''title'' then required True attr v
      else if attr = ''client_username'' then required True attr v
      else if attr = ''seat_type'' then required True attr v
      else if attr = ''price'' then required (isEnrollmentCode st) attr v
      else if attr = ''benefit_value'' then required (isDiscountCode st) attr v
      else if attr = ''start_date'' then start_date E st v
      else if attr = ''end_date'' then end_date E st v
      else None)"

text \<open>\<^verbatim>\<open>this.isValid(attr)\<close> of Backbone.Validation.\<close>

definition isValid :: "env \<Rightarrow> state \<Rightarrow> string \<Rightarrow> bool" where
  "isValid E st attr = (validation E st attr = None)"

subsection \<open>The handlers (lines 116 to 147)\<close>

text \<open>
  \<^verbatim>\<open>loadCourse\<close> runs after the new course id is in the attribute hash. It points
  the relation at the course of that id, adds a listener for the course's
  \<^verbatim>\<open>change\<close> event and starts a fetch. Nothing in the file stops listening.
\<close>

definition loadCourse :: "env \<Rightarrow> jsval \<Rightarrow> state \<Rightarrow> state" where
  "loadCourse E value st =
     (if isValid E st ''course_id'' then
        st\<lparr>course := Some value,
           listening := listening st @ [value],
           fetches := fetches st @ [value]\<rparr>
      else st)"

text \<open>
  \<^verbatim>\<open>fillFromCourse\<close> stores the seat types and then reads
  \<^verbatim>\<open>seatTypes[0].value\<close>; on an empty array \<^verbatim>\<open>seatTypes[0]\<close> is
  \<^verbatim>\<open>undefined\<close> and reading its property throws a TypeError, after the first
  \<^verbatim>\<open>set\<close> has happened.
\<close>

definition fillFromCourse :: "env \<Rightarrow> course \<Rightarrow> state \<Rightarrow> state \<times> outcome" where
  "fillFromCourse E c st =
     (let seatTypes' = map (\<lambda>val. (certificate_type val, getSeatTypeDisplayName E val)) (seats E c);
          st1 = st\<lparr>seatTypes := Some seatTypes'\<rparr>
      in case seatTypes' of
           [] \<Rightarrow> (st1, Threw TypeError)
         | t # ts \<Rightarrow> (put ''seat_type'' (fst t) st1, Done))"

definition changeVoucherType :: "jsval \<Rightarrow> state \<Rightarrow> state" where
  "changeVoucherType value st =
     (if strict_eq value (JStr ''Single use'') then put ''quantity'' (JNum (Fin 1)) st else st)"

text \<open>
  Backbone's \<^verbatim>\<open>set\<close> on a model whose handlers are registered: the attribute is
  written, and when the new value is not equal to the old one (\<^verbatim>\<open>_.isEqual\<close>)
  the event \<^verbatim>\<open>change:name\<close> runs the handler registered for it.
\<close>

definition model_set :: "env \<Rightarrow> string \<Rightarrow> jsval \<Rightarrow> state \<Rightarrow> state" where
  "model_set E name v st =
     (let changed = (attrs st name \<noteq> v); st1 = put name v st in
      if \<not> changed then st1
      else if name = ''voucher_type'' then changeVoucherType v st1
      else if name = ''course_id'' then loadCourse E v st1
      else st1)"

text \<open>
  \<^verbatim>\<open>initialize\<close> registers the two handlers and sets the quantity. The
  constructor of a Backbone model writes the attributes it is given before it calls
  \<^verbatim>\<open>initialize\<close>, so no handler runs for them. \<^verbatim>\<open>defaults\<close> is empty.
\<close>

definition initialize :: "env \<Rightarrow> state \<Rightarrow> state" where
  "initialize E st = model_set E ''quantity'' (JNum (Fin 1)) st"

definition empty_state :: state where
  "empty_state =
     \<lparr>attrs = (\<lambda>name. JUndefined), course = None, seatTypes = None,
      store = (\<lambda>cid. \<lparr>products = []\<rparr>), listening = [], fetches = []\<rparr>"

definition construct :: "env \<Rightarrow> (string \<times> jsval) list \<Rightarrow> state" where
  "construct E given = initialize E (foldl (\<lambda>st (name, v). put name v st) empty_state given)"

text \<open>
  A fetch of the course \<open>cid\<close> completes and brings data that the Course object
  did not hold (the first fetch of a course always does: \<^verbatim>\<open>findOrCreate\<close>
  made the object from its id alone). The object takes the data \<open>c\<close> and fires
  \<^verbatim>\<open>change\<close>, which runs \<^verbatim>\<open>fillFromCourse\<close> once per listener
  registered on that course. A handler that throws ends the dispatch. Nothing happens
  when no fetch of that course is pending.
\<close>

fun run_listeners :: "env \<Rightarrow> course \<Rightarrow> nat \<Rightarrow> state \<Rightarrow> state \<times> outcome" where
  "run_listeners E c 0 st = (st, Done)"
| "run_listeners E c (Suc n) st =
     (case fillFromCourse E c st of
        (st1, Threw e) \<Rightarrow> (st1, Threw e)
      | (st1, Done) \<Rightarrow> run_listeners E c n st1)"

definition fetched :: "env \<Rightarrow> jsval \<Rightarrow> course \<Rightarrow> state \<Rightarrow> state \<times> outcome" where
  "fetched E cid c st =
     (if cid \<notin> set (fetches st) then (st, Done)
      else
        let st1 = st\<lparr>fetches := remove1 cid (fetches st), store := (store st)(cid := c)\<rparr>
        in run_listeners E c (count_list (listening st) cid) st1)"

text \<open>
  What can happen to a coupon between its construction and its submission: a form
  binding or a caller writes a primitive attribute with \<^verbatim>\<open>set\<close>, or a fetch
  completes.
\<close>

datatype event = Set string jsval | Fetched jsval course

fun step :: "env \<Rightarrow> event \<Rightarrow> state \<Rightarrow> state" where
  "step E (Set name v) st = model_set E name v st"
| "step E (Fetched cid c) st = fst (fetched E cid c st)"

inductive reachable :: "env \<Rightarrow> state \<Rightarrow> bool" for E :: env where
  constructed: "reachable E (construct E given)"
| stepped: "reachable E st \<Longrightarrow> reachable E (step E ev st)"

subsection \<open>Saving (lines 149 to 193)\<close>

text \<open>
  The object \<^verbatim>\<open>data\<close> that \<^verbatim>\<open>save\<close> builds, serialises and hands to
  Backbone's own \<^verbatim>\<open>save\<close>. The last three properties exist only when the
  \<^verbatim>\<open>switch\<close> has set them.
\<close>

record payload =
  title :: jsval
  client_username :: jsval
  start_date_p :: jsval
  end_date_p :: jsval
  stock_record_ids :: "jsnum list"
  code :: jsval
  voucher_type :: jsval
  quantity :: jsnum
  price :: "jsnum option"
  benefit_type :: "jsval option"
  benefit_value :: "jsnum option"

text \<open>
  \<^verbatim>\<open>findWhere\<close> on the collection of products: the first product whose attribute
  is strictly equal to the value looked for, \<^verbatim>\<open>undefined\<close> when there is none.
\<close>

definition findWhere :: "product list \<Rightarrow> jsval \<Rightarrow> product option" where
  "findWhere ps ct = List.find (\<lambda>p. strict_eq ct (certificate_type p)) ps"

text \<open>
  \<^verbatim>\<open>save\<close> up to the call of \<^verbatim>\<open>_super\<close>. Reading a property of
  \<^verbatim>\<open>undefined\<close> throws a TypeError: that happens on line 157 when no course is
  set, and on line 161 when \<^verbatim>\<open>findWhere\<close> found no seat.
\<close>

definition save :: "env \<Rightarrow> state \<Rightarrow> error + payload" where
  "save E st =
     (case course st of
        None \<Rightarrow> Inl TypeError
      | Some cid \<Rightarrow>
          (case findWhere (products (store st cid)) (model_get st ''seat_type'') of
             None \<Rightarrow> Inl TypeError
           | Some seat \<Rightarrow>
               let stockRecordIds = map (parseInt E \<circ> sr_id) (stockrecords seat);
                   data = \<lparr>title = model_get st ''title'',
                           client_username = model_get st ''client_username'',
                           start_date_p = model_get st ''start_date'',
                           end_date_p = model_get st ''end_date'',
                           stock_record_ids = stockRecordIds,
                           code = (if truthy (model_get st ''code'') then model_get st ''code''
                                   else JStr []),
                           voucher_type = model_get st ''voucher_type'',
                           quantity = parseInt E (model_get st ''quantity''),
                           price = None, benefit_type = None, benefit_value = None\<rparr>;
                   data1 = (if \<not> strict_eq (voucher_type data) (JStr ''Single use'')
                               \<or> isEmpty (model_get st ''quantity'')
                            then data\<lparr>quantity := Fin 1\<rparr> else data)
               in Inr
                    (if strict_eq (model_get st ''code_type'') (JStr ''enrollment'') then
                       data1\<lparr>price := Some (parseFloat E (model_get st ''price'')),
                             benefit_type := Some (JStr ''Percentage''),
                             benefit_value := Some (Fin 100)\<rparr>
                     else if strict_eq (model_get st ''code_type'') (JStr ''discount'') then
                       data1\<lparr>price := Some (Fin 0),
                             benefit_type := Some (model_get st ''benefit_type''),
                             benefit_value := Some (parseFloat E (model_get st ''benefit_value''))\<rparr>
                     else data1)))"

subsection \<open>A reference environment\<close>

text \<open>
  One environment, to run the model on concrete coupons. It follows ECMAScript 5 for
  \<^verbatim>\<open>parseInt\<close> and \<^verbatim>\<open>parseFloat\<close> on strings, with the exact value of the
  digits in place of the nearest double (the two agree on integers below \<open>2^53\<close>). On
  numbers it covers those that print in plain decimal notation without a fraction;
  \<^verbatim>\<open>moment\<close> covers strings that are written exactly as the format says, in a
  browser whose time zone is UTC. Outside these inputs it answers NaN, or a moment that
  is not valid, where the builtins may answer otherwise; the general theorems do not
  depend on it, and the examples stay inside.
\<close>

definition digit_of :: "char \<Rightarrow> nat option" where
  "digit_of c =
     (let n = (of_char c :: nat) in
      if 48 \<le> n \<and> n \<le> 57 then Some (n - 48)
      else if 97 \<le> n \<and> n \<le> 122 then Some (n - 87)
      else if 65 \<le> n \<and> n \<le> 90 then Some (n - 55)
      else None)"

definition is_digit :: "nat \<Rightarrow> char \<Rightarrow> bool" where
  "is_digit R c = (case digit_of c of Some d \<Rightarrow> d < R | None \<Rightarrow> False)"

definition digits_value :: "nat \<Rightarrow> string \<Rightarrow> nat" where
  "digits_value R ds =
     foldl (\<lambda>a c. case digit_of c of Some d \<Rightarrow> a * R + d | None \<Rightarrow> a) 0 ds"

text \<open>
  \<^verbatim>\<open>parseInt(string)\<close> without a radix: leading white space, a sign, a
  \<^verbatim>\<open>0x\<close> prefix, then the longest run of digits; NaN when that run is empty.
\<close>

definition parseInt_string :: "string \<Rightarrow> jsnum" where
  "parseInt_string s =
     (let S = dropWhile is_ws s;
          neg = (case S of c # cs \<Rightarrow> c = CHR ''-'' | [] \<Rightarrow> False);
          S1 = (case S of c # cs \<Rightarrow> if c = CHR ''-'' \<or> c = CHR ''+'' then cs else S | [] \<Rightarrow> S);
          hex = (case S1 of a # b # cs \<Rightarrow> a = CHR ''0'' \<and> (b = CHR ''x'' \<or> b = CHR ''X'') | _ \<Rightarrow> False);
          R = (if hex then 16 else 10);
          S2 = (if hex then drop 2 S1 else S1);
          Z = takeWhile (is_digit R) S2
      in if Z = [] then NaN
         else Fin ((if neg then - 1 else 1) * of_nat (digits_value R Z)))"

text \<open>
  \<^verbatim>\<open>parseFloat(string)\<close>: leading white space, a sign, then the longest prefix
  that is a decimal literal (digits, a fraction, an exponent) or
  \<^verbatim>\<open>Infinity\<close>; NaN when there is none.
\<close>

definition exponent_of :: "string \<Rightarrow> int" where
  "exponent_of t =
     (case t of
        e # u \<Rightarrow>
          if e = CHR ''e'' \<or> e = CHR ''E'' then
            (let neg = (case u of c # cs \<Rightarrow> c = CHR ''-'' | [] \<Rightarrow> False);
                 u1 = (case u of c # cs \<Rightarrow> if c = CHR ''-'' \<or> c = CHR ''+'' then cs else u | [] \<Rightarrow> u);
                 ds = takeWhile (is_digit 10) u1
             in (if neg then - 1 else 1) * int (digits_value 10 ds))
          else 0
      | [] \<Rightarrow> 0)"

definition parseFloat_string :: "string \<Rightarrow> jsnum" where
  "parseFloat_string s =
     (let S = dropWhile is_ws s;
          neg = (case S of c # cs \<Rightarrow> c = CHR ''-'' | [] \<Rightarrow> False);
          S1 = (case S of c # cs \<Rightarrow> if c = CHR ''-'' \<or> c = CHR ''+'' then cs else S | [] \<Rightarrow> S);
          ip = takeWhile (is_digit 10) S1;
          r1 = dropWhile (is_digit 10) S1;
          dot = (case r1 of c # cs \<Rightarrow> c = CHR ''.'' | [] \<Rightarrow> False);
          fp = (if dot then takeWhile (is_digit 10) (tl r1) else []);
          r2 = (if dot then dropWhile (is_digit 10) (tl r1) else r1);
          m = (of_nat (digits_value 10 ip) :: rat)
                + of_nat (digits_value 10 fp) / 10 ^ length fp;
          x = exponent_of r2;
          v = (if 0 \<le> x then m * 10 ^ nat x else m / 10 ^ nat (- x))
      in if take 8 S1 = ''Infinity'' then (if neg then NegInf else PosInf)
         else if ip = [] \<and> fp = [] then NaN
         else Fin (if neg then - v else v))"

definition is_plain_int :: "rat \<Rightarrow> bool" where
  "is_plain_int q = (q = of_int \<lfloor>q\<rfloor> \<and> \<bar>q\<bar> < 10 ^ 21)"

fun parseInt_ref :: "jsval \<Rightarrow> jsnum" where
  "parseInt_ref (JStr s) = parseInt_string s"
| "parseInt_ref (JNum (Fin q)) = (if is_plain_int q then Fin q else NaN)"
| "parseInt_ref v = NaN"

fun parseFloat_ref :: "jsval \<Rightarrow> jsnum" where
  "parseFloat_ref (JStr s) = parseFloat_string s"
| "parseFloat_ref (JNum n) = n"
| "parseFloat_ref v = NaN"

fun show_nat :: "nat \<Rightarrow> string" where
  "show_nat n =
     (if n < 10 then [char_of (48 + n)] else show_nat (n div 10) @ [char_of (48 + n mod 10)])"

fun numToString_ref :: "jsnum \<Rightarrow> string" where
  "numToString_ref NaN = ''NaN''"
| "numToString_ref PosInf = ''Infinity''"
| "numToString_ref NegInf = ''-Infinity''"
| "numToString_ref (Fin q) =
     (if q < 0 then ''-'' else []) @ show_nat (nat \<lfloor>\<bar>q\<bar>\<rfloor>)"

text \<open>Days from 1970-01-01 to the given day of the proleptic Gregorian calendar.\<close>

definition days_from_civil :: "int \<Rightarrow> int \<Rightarrow> int \<Rightarrow> int" where
  "days_from_civil y m d =
     (let y1 = (if m \<le> 2 then y - 1 else y);
          era = y1 div 400;
          yoe = y1 - era * 400;
          doy = (153 * (if 2 < m then m - 3 else m + 9) + 2) div 5 + d - 1;
          doe = yoe * 365 + yoe div 4 - yoe div 100 + doy
      in era * 146097 + doe - 719468)"

definition days_in_month :: "int \<Rightarrow> int \<Rightarrow> int" where
  "days_in_month y m =
     (if m = 2 then (if y mod 4 = 0 \<and> (y mod 100 \<noteq> 0 \<or> y mod 400 = 0) then 29 else 28)
      else if m = 4 \<or> m = 6 \<or> m = 9 \<or> m = 11 then 30 else 31)"

definition moment_string :: "string \<Rightarrow> int option" where
  "moment_string s =
     (if length s = 10 \<and> s ! 2 = CHR ''/'' \<and> s ! 5 = CHR ''/''
         \<and> list_all (is_digit 10) (take 2 s @ take 2 (drop 3 s) @ drop 6 s)
      then
        let m = int (digits_value 10 (take 2 s));
            d = int (digits_value 10 (take 2 (drop 3 s)));
            y = int (digits_value 10 (drop 6 s))
        in if 1 \<le> m \<and> m \<le> 12 \<and> 1 \<le> d \<and> d \<le> days_in_month y m
           then Some (days_from_civil y m d * 86400000) else None
      else None)"

fun moment_ref :: "jsval \<Rightarrow> string \<Rightarrow> int option" where
  "moment_ref (JStr s) f = (if f = ''MM/DD/YYYY'' then moment_string s else None)"
| "moment_ref v f = None"

text \<open>
  Modelled from the spec: \<^verbatim>\<open>seats()\<close> of the course model is not among the
  sources; the seats are the products on the course. The display name of a seat is taken
  to be its certificate type.
\<close>

definition env_ref :: env where
  "env_ref =
     \<lparr>parseInt = parseInt_ref, parseFloat = parseFloat_ref, numToString = numToString_ref,
      moment = moment_ref, seats = products, getSeatTypeDisplayName = certificate_type\<rparr>"

subsection \<open>The specification's reading of the course id pattern\<close>

text \<open>
  The specification describes the pattern as three non-empty segments separated by
  \<^verbatim>\<open>/\<close> or \<^verbatim>\<open>+\<close>. \<open>three_segments\<close> follows those words: the string
  is cut at every separator, and the pieces are three and none is empty.
\<close>

fun split_segments :: "string \<Rightarrow> string list" where
  "split_segments [] = [[]]"
| "split_segments (c # cs) =
     (if c = CHR ''/'' \<or> c = CHR ''+'' then [] # split_segments cs
      else (case split_segments cs of x # xs \<Rightarrow> (c # x) # xs | [] \<Rightarrow> [[c]]))"

definition three_segments :: "string \<Rightarrow> bool" where
  "three_segments s = (let segs = split_segments s in length segs = 3 \<and> [] \<notin> set segs)"

subsection \<open>The specification's reading of the payload's quantity\<close>

text \<open>
  The specification has the quantity as a positive integer that is 1 when the voucher
  type is not \<^verbatim>\<open>Single use\<close> or the quantity is empty (unset), and the
  numeric value of the quantity otherwise. \<open>quantity_unset\<close> and \<open>spec_quantity\<close>
  follow those words: a quantity is unset when the attribute has no value or is the empty
  text of an input field.
\<close>

definition quantity_unset :: "jsval \<Rightarrow> bool" where
  "quantity_unset v = (v = JUndefined \<or> v = JNull \<or> v = JStr [])"

definition spec_quantity :: "env \<Rightarrow> state \<Rightarrow> jsnum" where
  "spec_quantity E st =
     (if model_get st ''voucher_type'' \<noteq> JStr ''Single use''
         \<or> quantity_unset (model_get st ''quantity'')
      then Fin 1 else parseInt E (model_get st ''quantity''))"

subsection \<open>Example coupons\<close>

text \<open>
  The course of the specification's round trip: one seat of certificate type
  \<^verbatim>\<open>honor\<close> with the stock record \<^verbatim>\<open>{id: "5"}\<close>.
\<close>

definition course_honor :: course where
  "course_honor =
     \<lparr>products = [\<lparr>certificate_type = JStr ''honor'', stockrecords = [\<lparr>sr_id = JStr ''5''\<rparr>]\<rparr>]\<rparr>"

text \<open>
  A new coupon whose course id is typed in and whose course then arrives: the handler
  picks the first seat type.
\<close>

definition coupon_honor :: state where
  "coupon_honor =
     step env_ref (Fetched (JStr ''course-v1:Org+101+2024'') course_honor)
       (step env_ref (Set ''course_id'' (JStr ''course-v1:Org+101+2024''))
          (construct env_ref []))"

definition coupon_enrollment :: state where
  "coupon_enrollment =
     step env_ref (Set ''benefit_value'' (JStr ''30''))
       (step env_ref (Set ''price'' (JStr ''25.50''))
          (step env_ref (Set ''code_type'' (JStr ''enrollment'')) coupon_honor))"

definition coupon_discount :: state where
  "coupon_discount =
     step env_ref (Set ''benefit_value'' (JStr ''30''))
       (step env_ref (Set ''benefit_type'' (JStr ''Absolute''))
          (step env_ref (Set ''price'' (JStr ''25.50''))
             (step env_ref (Set ''code_type'' (JStr ''discount'')) coupon_honor)))"

text \<open>The voucher type is chosen first, then a quantity is typed into the form.\<close>

definition coupon_single_use :: state where
  "coupon_single_use =
     step env_ref (Set ''quantity'' (JStr ''5''))
       (step env_ref (Set ''voucher_type'' (JStr ''Single use'')) coupon_honor)"

text \<open>The same with the quantity written as a number, not as the text of an input field.\<close>

definition coupon_single_use_number :: state where
  "coupon_single_use_number =
     step env_ref (Set ''quantity'' (JNum (Fin 7)))
       (step env_ref (Set ''voucher_type'' (JStr ''Single use'')) coupon_honor)"

text \<open>A seat type that the course does not offer.\<close>

definition coupon_verified :: state where
  "coupon_verified = step env_ref (Set ''seat_type'' (JStr ''verified'')) coupon_honor"

definition coupon_dates_ordered :: state where
  "coupon_dates_ordered =
     step env_ref (Set ''end_date'' (JStr ''02/01/2024''))
       (step env_ref (Set ''start_date'' (JStr ''01/01/2024'')) (construct env_ref []))"

definition coupon_dates_reversed :: state where
  "coupon_dates_reversed =
     step env_ref (Set ''end_date'' (JStr ''01/01/2024''))
       (step env_ref (Set ''start_date'' (JStr ''02/01/2024'')) (construct env_ref []))"

text \<open>The course id is changed twice before any fetch completes.\<close>

definition coupon_two_courses :: state where
  "coupon_two_courses =
     step env_ref (Set ''course_id'' (JStr ''course-v1:Org+102+2024''))
       (step env_ref (Set ''course_id'' (JStr ''course-v1:Org+101+2024''))
          (construct env_ref []))"

section \<open>Properties\<close>

subsection \<open>The course id pattern\<close>

text \<open>
  What the matcher accepts, item by item: a single character of the class, or a
  non-empty run of characters of the class, followed by a match of the rest.
\<close>

lemma match_here_One:
  "match_here (One k # r) s \<longleftrightarrow> (\<exists>c t. s = c # t \<and> in_class k c \<and> match_here r t)"
  by (cases s) auto

lemma match_here_Many:
  "match_here (Many k # r) s \<longleftrightarrow>
     (\<exists>a t. s = a @ t \<and> a \<noteq> [] \<and> list_all (in_class k) a \<and> match_here r t)"
proof (induction s)
  case Nil
  show ?case by simp
next
  case (Cons c cs)
  show ?case
  proof
    assume "match_here (Many k # r) (c # cs)"
    then have c: "in_class k c" and d: "match_here (Many k # r) cs \<or> match_here r cs"
      by simp_all
    from d show "\<exists>a t. c # cs = a @ t \<and> a \<noteq> [] \<and> list_all (in_class k) a \<and> match_here r t"
    proof
      assume "match_here (Many k # r) cs"
      with Cons.IH obtain a t where "cs = a @ t" "list_all (in_class k) a" "match_here r t"
        by blast
      with c have "c # cs = (c # a) @ t \<and> c # a \<noteq> [] \<and> list_all (in_class k) (c # a) \<and> match_here r t"
        by simp
      then show ?thesis by blast
    next
      assume "match_here r cs"
      with c have "c # cs = [c] @ cs \<and> [c] \<noteq> [] \<and> list_all (in_class k) [c] \<and> match_here r cs"
        by simp
      then show ?thesis by blast
    qed
  next
    assume "\<exists>a t. c # cs = a @ t \<and> a \<noteq> [] \<and> list_all (in_class k) a \<and> match_here r t"
    then obtain a t where eq: "c # cs = a @ t" and ne: "a \<noteq> []"
      and cl: "list_all (in_class k) a" and m: "match_here r t"
      by blast
    from ne obtain a' where a: "a = c # a'" using eq by (cases a) auto
    with eq have cs: "cs = a' @ t" by simp
    from cl a have c: "in_class k c" and cl': "list_all (in_class k) a'" by simp_all
    show "match_here (Many k # r) (c # cs)"
    proof (cases "a' = []")
      case True
      with cs m c show ?thesis by simp
    next
      case False
      with cs cl' m Cons.IH have "match_here (Many k # r) cs" by blast
      with c show ?thesis by simp
    qed
  qed
qed

text \<open>A search succeeds when the pattern matches at the start of some suffix.\<close>

lemma search_iff: "search r s \<longleftrightarrow> (\<exists>pre t. s = pre @ t \<and> match_here r t)"
proof (induction s)
  case Nil
  show ?case by simp
next
  case (Cons c cs)
  show ?case
  proof
    assume "search r (c # cs)"
    then have "match_here r (c # cs) \<or> search r cs" by simp
    then show "\<exists>pre t. c # cs = pre @ t \<and> match_here r t"
    proof
      assume "match_here r (c # cs)"
      then have "c # cs = [] @ (c # cs) \<and> match_here r (c # cs)" by simp
      then show ?thesis by blast
    next
      assume "search r cs"
      with Cons.IH obtain pre t where "cs = pre @ t" "match_here r t" by blast
      then have "c # cs = (c # pre) @ t \<and> match_here r t" by simp
      then show ?thesis by blast
    qed
  next
    assume "\<exists>pre t. c # cs = pre @ t \<and> match_here r t"
    then obtain pre t where eq: "c # cs = pre @ t" and m: "match_here r t" by blast
    show "search r (c # cs)"
    proof (cases pre)
      case Nil
      with eq have "t = c # cs" by simp
      with m have "match_here r (c # cs)" by simp
      then show ?thesis by simp
    next
      case (Cons p ps)
      with eq have "cs = ps @ t" by simp
      with m Cons.IH have "search r cs" by blast
      then show ?thesis by simp
    qed
  qed
qed

lemma list_all_NoneOf2: "list_all (in_class (NoneOf ''/+'')) a \<longleftrightarrow> CHR ''/'' \<notin> set a \<and> CHR ''+'' \<notin> set a"
  by (induction a) auto

lemma list_all_NoneOf1: "list_all (in_class (NoneOf ''/'')) a \<longleftrightarrow> CHR ''/'' \<notin> set a"
  by (induction a) auto

lemma match_here_courseId:
  "match_here courseId t \<longleftrightarrow>
     (\<exists>a x b y c post. t = a @ [x] @ b @ [y] @ c @ post
        \<and> a \<noteq> [] \<and> CHR ''/'' \<notin> set a \<and> CHR ''+'' \<notin> set a
        \<and> (x = CHR ''/'' \<or> x = CHR ''+'')
        \<and> b \<noteq> [] \<and> CHR ''/'' \<notin> set b \<and> CHR ''+'' \<notin> set b
        \<and> (y = CHR ''/'' \<or> y = CHR ''+'')
        \<and> c \<noteq> [] \<and> CHR ''/'' \<notin> set c)"
  (is "?L \<longleftrightarrow> ?R")
proof
  assume ?L
  then obtain a t1 where 1: "t = a @ t1" "a \<noteq> []" "CHR ''/'' \<notin> set a \<and> CHR ''+'' \<notin> set a"
      and m1: "match_here [One (AnyOf ''/+''), Many (NoneOf ''/+''), One (AnyOf ''/+''), Many (NoneOf ''/'')] t1"
    unfolding courseId_def match_here_Many [of "NoneOf ''/+''"] list_all_NoneOf2 by blast
  from m1 obtain x t2 where 2: "t1 = x # t2" "x = CHR ''/'' \<or> x = CHR ''+''"
      and m2: "match_here [Many (NoneOf ''/+''), One (AnyOf ''/+''), Many (NoneOf ''/'')] t2"
    unfolding match_here_One [of "AnyOf ''/+''"] by auto
  from m2 obtain b t3 where 3: "t2 = b @ t3" "b \<noteq> []" "CHR ''/'' \<notin> set b \<and> CHR ''+'' \<notin> set b"
      and m3: "match_here [One (AnyOf ''/+''), Many (NoneOf ''/'')] t3"
    unfolding match_here_Many [of "NoneOf ''/+''"] list_all_NoneOf2 by blast
  from m3 obtain y t4 where 4: "t3 = y # t4" "y = CHR ''/'' \<or> y = CHR ''+''"
      and m4: "match_here [Many (NoneOf ''/'')] t4"
    unfolding match_here_One [of "AnyOf ''/+''"] by auto
  from m4 obtain c post where 5: "t4 = c @ post" "c \<noteq> []" "CHR ''/'' \<notin> set c"
    unfolding match_here_Many [of "NoneOf ''/''"] list_all_NoneOf1 by blast
  have "t = a @ [x] @ b @ [y] @ c @ post" using 1 2 3 4 5 by simp
  with 1 2 3 4 5 show ?R by blast
next
  assume ?R
  then obtain a x b y c post where t: "t = a @ [x] @ b @ [y] @ c @ post"
    and a: "a \<noteq> []" "CHR ''/'' \<notin> set a \<and> CHR ''+'' \<notin> set a"
    and x: "x = CHR ''/'' \<or> x = CHR ''+''"
    and b: "b \<noteq> []" "CHR ''/'' \<notin> set b \<and> CHR ''+'' \<notin> set b"
    and y: "y = CHR ''/'' \<or> y = CHR ''+''"
    and c: "c \<noteq> []" "CHR ''/'' \<notin> set c"
    by blast
  have m4: "match_here [Many (NoneOf ''/'')] (c @ post)"
    unfolding match_here_Many [of "NoneOf ''/''"] list_all_NoneOf1 using c by auto
  have m3: "match_here [One (AnyOf ''/+''), Many (NoneOf ''/'')] (y # c @ post)"
    using m4 y by auto
  have m2: "match_here [Many (NoneOf ''/+''), One (AnyOf ''/+''), Many (NoneOf ''/'')] (b @ y # c @ post)"
    unfolding match_here_Many [of "NoneOf ''/+''"] list_all_NoneOf2 using m3 b by blast
  have m1: "match_here [One (AnyOf ''/+''), Many (NoneOf ''/+''), One (AnyOf ''/+''), Many (NoneOf ''/'')] (x # b @ y # c @ post)"
    using m2 x by auto
  have "match_here courseId (a @ x # b @ y # c @ post)"
    unfolding courseId_def match_here_Many [of "NoneOf ''/+''" "[One (AnyOf ''/+''), Many (NoneOf ''/+''), One (AnyOf ''/+''), Many (NoneOf ''/'')]"] list_all_NoneOf2 using m1 a by blast
  then show ?L using t by simp
qed

text \<open>
  A string that trims to nothing is all white space, and so has no separator in it: the
  test for a missing value never rejects a string that the pattern matches.
\<close>

lemma trim_empty_all_ws:
  assumes "trim s = []"
  shows "list_all is_ws s"
proof -
  let ?X = "dropWhile is_ws s"
  from assms have "dropWhile is_ws (rev ?X) = []" by (simp add: trim_def)
  then have "list_all is_ws (rev ?X)" by (simp add: dropWhile_eq_Nil_conv list_all_iff)
  then have a: "list_all is_ws ?X" by (simp add: list_all_iff)
  have "?X = []"
  proof (cases ?X)
    case Nil
    then show ?thesis .
  next
    case (Cons x xs)
    then have "\<not> is_ws x" using hd_dropWhile [of is_ws s] by simp
    with a Cons show ?thesis by simp
  qed
  then show ?thesis by (simp add: dropWhile_eq_Nil_conv list_all_iff)
qed

lemma search_courseId_hasValue:
  assumes "search courseId s"
  shows "trim s \<noteq> []"
proof
  assume "trim s = []"
  then have ws: "list_all is_ws s" by (rule trim_empty_all_ws)
  from assms obtain pre t where s: "s = pre @ t" and m: "match_here courseId t"
    unfolding search_iff by blast
  from m obtain a x b y c post where t: "t = a @ [x] @ b @ [y] @ c @ post"
    and x: "x = CHR ''/'' \<or> x = CHR ''+''"
    unfolding match_here_courseId by blast
  from ws s t have "is_ws x" by simp
  with x show False by (auto simp: is_ws_def)
qed

lemma validation_course_id_string:
  assumes "model_get st ''course_id'' = JStr s"
  shows "validation E st ''course_id'' = None \<longleftrightarrow> search courseId s"
  using assms search_courseId_hasValue [of s] by (auto simp: validation_def)

text \<open>
  Claim C5, as amended. The validation of \<^verbatim>\<open>course_id\<close> accepts a string exactly
  when some contiguous part of it is a non-empty run without \<^verbatim>\<open>/\<close> and
  \<^verbatim>\<open>+\<close>, a separator, a second such run, a separator, and a non-empty run without
  \<^verbatim>\<open>/\<close>. The pattern is not anchored, so anything may come before and after that
  part, and the last run may contain \<^verbatim>\<open>+\<close>.
\<close>

theorem course_id_accepts_iff_contains_shape:
  assumes "model_get st ''course_id'' = JStr s"
  shows "validation E st ''course_id'' = None \<longleftrightarrow>
     (\<exists>pre a x b y c post. s = pre @ a @ [x] @ b @ [y] @ c @ post
        \<and> a \<noteq> [] \<and> CHR ''/'' \<notin> set a \<and> CHR ''+'' \<notin> set a
        \<and> (x = CHR ''/'' \<or> x = CHR ''+'')
        \<and> b \<noteq> [] \<and> CHR ''/'' \<notin> set b \<and> CHR ''+'' \<notin> set b
        \<and> (y = CHR ''/'' \<or> y = CHR ''+'')
        \<and> c \<noteq> [] \<and> CHR ''/'' \<notin> set c)"
  unfolding validation_course_id_string [OF assms] search_iff match_here_courseId
  by blast

text \<open>The course id of the specification's scenario is accepted.\<close>

theorem course_id_accepts_iff_contains_shape_witness:
  "model_get (put ''course_id'' (JStr ''course-v1:Org+101+2024'') empty_state) ''course_id''
     = JStr ''course-v1:Org+101+2024''
   \<and> validation env_ref (put ''course_id'' (JStr ''course-v1:Org+101+2024'') empty_state)
        ''course_id'' = None"
proof -
  let ?st = "put ''course_id'' (JStr ''course-v1:Org+101+2024'') empty_state"
  have h: "model_get ?st ''course_id'' = JStr ''course-v1:Org+101+2024''"
    by (simp add: model_get_def put_def)
  have "''course-v1:Org+101+2024'' = [] @ ''course-v1:Org'' @ [CHR ''+''] @ ''101'' @ [CHR ''+''] @ ''2024'' @ []
        \<and> ''course-v1:Org'' \<noteq> [] \<and> CHR ''/'' \<notin> set ''course-v1:Org'' \<and> CHR ''+'' \<notin> set ''course-v1:Org''
        \<and> (CHR ''+'' = CHR ''/'' \<or> CHR ''+'' = CHR ''+'')
        \<and> ''101'' \<noteq> [] \<and> CHR ''/'' \<notin> set ''101'' \<and> CHR ''+'' \<notin> set ''101''
        \<and> (CHR ''+'' = CHR ''/'' \<or> CHR ''+'' = CHR ''+'')
        \<and> ''2024'' \<noteq> [] \<and> CHR ''/'' \<notin> set ''2024''"
    by simp
  then have "validation env_ref ?st ''course_id'' = None"
    unfolding course_id_accepts_iff_contains_shape [OF h] by blast
  with h show ?thesis by simp
qed

text \<open>
  Claim C5 as stated fails: \<^verbatim>\<open>a/b/c/d\<close> has four segments and is accepted.
\<close>

theorem course_id_three_segments_counterexample:
  "validation env_ref (put ''course_id'' (JStr ''a/b/c/d'') empty_state) ''course_id'' = None
   \<and> \<not> three_segments ''a/b/c/d''"
  by (simp add: validation_def model_get_def put_def courseId_def trim_def is_ws_def
      three_segments_def)

subsection \<open>The example coupons, evaluated\<close>

lemmas run_defs =
  construct_def initialize_def model_set_def put_def model_get_def empty_state_def
  changeVoucherType_def loadCourse_def isValid_def validation_def fetched_def
  fillFromCourse_def strict_eq_def courseId_def trim_def is_ws_def env_ref_def Let_def

lemmas parse_defs =
  parseInt_string_def parseFloat_string_def exponent_of_def is_ws_def is_digit_def digit_of_def
  digits_value_def env_ref_def

lemmas moment_defs =
  moment_string_def is_digit_def digit_of_def digits_value_def days_in_month_def
  days_from_civil_def env_ref_def dateFormat_def

lemma coupon_honor_course: "course coupon_honor = Some (JStr ''course-v1:Org+101+2024'')"
  by (simp add: coupon_honor_def course_honor_def run_defs)

lemma coupon_honor_store: "store coupon_honor (JStr ''course-v1:Org+101+2024'') = course_honor"
  by (simp add: coupon_honor_def course_honor_def run_defs)

lemma coupon_honor_attrs:
  "attrs coupon_honor =
     (\<lambda>name. JUndefined)(''quantity'' := JNum (Fin 1),
        ''course_id'' := JStr ''course-v1:Org+101+2024'', ''seat_type'' := JStr ''honor'')"
  by (simp add: coupon_honor_def course_honor_def run_defs)

lemma findWhere_honor:
  "attrs st ''seat_type'' = JStr ''honor'' \<Longrightarrow>
   findWhere (products course_honor) (model_get st ''seat_type'')
     = Some \<lparr>certificate_type = JStr ''honor'', stockrecords = [\<lparr>sr_id = JStr ''5''\<rparr>]\<rparr>"
  by (simp add: findWhere_def course_honor_def model_get_def strict_eq_def)

lemma coupon_enrollment_fields:
  "course coupon_enrollment = Some (JStr ''course-v1:Org+101+2024'')"
  "store coupon_enrollment (JStr ''course-v1:Org+101+2024'') = course_honor"
  "attrs coupon_enrollment =
     (attrs coupon_honor)(''code_type'' := JStr ''enrollment'', ''price'' := JStr ''25.50'',
        ''benefit_value'' := JStr ''30'')"
  by (simp_all add: coupon_enrollment_def coupon_honor_course coupon_honor_store coupon_honor_attrs
      model_set_def put_def Let_def)

lemma coupon_discount_fields:
  "course coupon_discount = Some (JStr ''course-v1:Org+101+2024'')"
  "store coupon_discount (JStr ''course-v1:Org+101+2024'') = course_honor"
  "attrs coupon_discount =
     (attrs coupon_honor)(''code_type'' := JStr ''discount'', ''price'' := JStr ''25.50'',
        ''benefit_type'' := JStr ''Absolute'', ''benefit_value'' := JStr ''30'')"
  by (simp_all add: coupon_discount_def coupon_honor_course coupon_honor_store coupon_honor_attrs
      model_set_def put_def Let_def)

lemma coupon_single_use_fields:
  "course coupon_single_use = Some (JStr ''course-v1:Org+101+2024'')"
  "store coupon_single_use (JStr ''course-v1:Org+101+2024'') = course_honor"
  "attrs coupon_single_use =
     (attrs coupon_honor)(''voucher_type'' := JStr ''Single use'', ''quantity'' := JStr ''5'')"
  by (simp_all add: coupon_single_use_def coupon_honor_course coupon_honor_store coupon_honor_attrs
      model_set_def put_def changeVoucherType_def strict_eq_def Let_def)

lemma coupon_single_use_number_fields:
  "course coupon_single_use_number = Some (JStr ''course-v1:Org+101+2024'')"
  "store coupon_single_use_number (JStr ''course-v1:Org+101+2024'') = course_honor"
  "attrs coupon_single_use_number =
     (attrs coupon_honor)(''voucher_type'' := JStr ''Single use'', ''quantity'' := JNum (Fin 7))"
  by (simp_all add: coupon_single_use_number_def coupon_honor_course coupon_honor_store
      coupon_honor_attrs model_set_def put_def changeVoucherType_def strict_eq_def Let_def)

lemma coupon_verified_fields:
  "course coupon_verified = Some (JStr ''course-v1:Org+101+2024'')"
  "store coupon_verified (JStr ''course-v1:Org+101+2024'') = course_honor"
  "attrs coupon_verified = (attrs coupon_honor)(''seat_type'' := JStr ''verified'')"
  by (simp_all add: coupon_verified_def coupon_honor_course coupon_honor_store coupon_honor_attrs
      model_set_def put_def Let_def)

lemma moment_ref_values:
  "moment env_ref (JStr ''01/01/2024'') dateFormat = Some 1704067200000"
  "moment env_ref (JStr ''02/01/2024'') dateFormat = Some 1706745600000"
  "moment env_ref (JStr []) dateFormat = None"
  by (simp_all add: moment_defs)

lemma reachable_coupon_honor: "reachable env_ref coupon_honor"
  unfolding coupon_honor_def by (intro reachable.stepped reachable.constructed)

subsection \<open>Saving\<close>

text \<open>
  When a course is set and the seat is found, \<^verbatim>\<open>save\<close> builds a payload, and
  these are its computed properties.
\<close>

lemma save_found:
  assumes "course st = Some cid"
    and "findWhere (products (store st cid)) (model_get st ''seat_type'') = Some seat"
  shows "\<exists>p. save E st = Inr p
     \<and> stock_record_ids p = map (\<lambda>r. parseInt E (sr_id r)) (stockrecords seat)
     \<and> quantity p =
         (if model_get st ''voucher_type'' \<noteq> JStr ''Single use'' \<or> isEmpty (model_get st ''quantity'')
          then Fin 1 else parseInt E (model_get st ''quantity''))
     \<and> price p =
         (if model_get st ''code_type'' = JStr ''enrollment''
          then Some (parseFloat E (model_get st ''price''))
          else if model_get st ''code_type'' = JStr ''discount'' then Some (Fin 0) else None)
     \<and> benefit_type p =
         (if model_get st ''code_type'' = JStr ''enrollment'' then Some (JStr ''Percentage'')
          else if model_get st ''code_type'' = JStr ''discount''
          then Some (model_get st ''benefit_type'') else None)
     \<and> benefit_value p =
         (if model_get st ''code_type'' = JStr ''enrollment'' then Some (Fin 100)
          else if model_get st ''code_type'' = JStr ''discount''
          then Some (parseFloat E (model_get st ''benefit_value'')) else None)"
  using assms by (simp add: save_def Let_def strict_eq_def comp_def)

lemma findWhere_Some:
  assumes "findWhere ps v = Some seat"
  shows "seat \<in> set ps \<and> certificate_type seat = v"
proof -
  from assms obtain i where "i < length ps" "strict_eq v (certificate_type (ps ! i))" "seat = ps ! i"
    unfolding findWhere_def find_Some_iff by blast
  then show ?thesis by (auto simp: strict_eq_def)
qed

lemma findWhere_None:
  "findWhere ps v = None \<longleftrightarrow> (\<forall>p\<in>set ps. \<not> strict_eq v (certificate_type p))"
  by (auto simp: findWhere_def find_None_iff)

text \<open>
  Claim C1. For a coupon whose seat is found on its course, \<^verbatim>\<open>save\<close> builds a
  payload; with the code type \<^verbatim>\<open>enrollment\<close> its benefit type is
  \<^verbatim>\<open>Percentage\<close>, its benefit value is 100 and its price is
  \<^verbatim>\<open>parseFloat\<close> of the coupon's price, whatever the coupon's benefit value; with
  the code type \<^verbatim>\<open>discount\<close> its price is 0, its benefit type is the coupon's
  and its benefit value is \<^verbatim>\<open>parseFloat\<close> of the coupon's.
\<close>

theorem save_enrollment_discount:
  assumes "course st = Some cid"
    and "findWhere (products (store st cid)) (model_get st ''seat_type'') = Some seat"
  shows "\<exists>p. save E st = Inr p
     \<and> (model_get st ''code_type'' = JStr ''enrollment'' \<longrightarrow>
          benefit_type p = Some (JStr ''Percentage'') \<and> benefit_value p = Some (Fin 100)
          \<and> price p = Some (parseFloat E (model_get st ''price'')))
     \<and> (model_get st ''code_type'' = JStr ''discount'' \<longrightarrow>
          price p = Some (Fin 0) \<and> benefit_type p = Some (model_get st ''benefit_type'')
          \<and> benefit_value p = Some (parseFloat E (model_get st ''benefit_value'')))"
proof -
  from save_found [OF assms, of E] obtain p where p: "save E st = Inr p"
    and pr: "price p =
         (if model_get st ''code_type'' = JStr ''enrollment''
          then Some (parseFloat E (model_get st ''price''))
          else if model_get st ''code_type'' = JStr ''discount'' then Some (Fin 0) else None)"
    and bt: "benefit_type p =
         (if model_get st ''code_type'' = JStr ''enrollment'' then Some (JStr ''Percentage'')
          else if model_get st ''code_type'' = JStr ''discount''
          then Some (model_get st ''benefit_type'') else None)"
    and bv: "benefit_value p =
         (if model_get st ''code_type'' = JStr ''enrollment'' then Some (Fin 100)
          else if model_get st ''code_type'' = JStr ''discount''
          then Some (parseFloat E (model_get st ''benefit_value'')) else None)"
    by blast
  have "model_get st ''code_type'' = JStr ''enrollment'' \<longrightarrow>
          benefit_type p = Some (JStr ''Percentage'') \<and> benefit_value p = Some (Fin 100)
          \<and> price p = Some (parseFloat E (model_get st ''price''))"
    using pr bt bv by simp
  moreover have "model_get st ''code_type'' = JStr ''discount'' \<longrightarrow>
          price p = Some (Fin 0) \<and> benefit_type p = Some (model_get st ''benefit_type'')
          \<and> benefit_value p = Some (parseFloat E (model_get st ''benefit_value''))"
    using pr bt bv by simp
  ultimately show ?thesis using p by blast
qed

theorem save_enrollment_discount_witness:
  "(\<exists>p. save env_ref coupon_enrollment = Inr p
      \<and> benefit_type p = Some (JStr ''Percentage'') \<and> benefit_value p = Some (Fin 100)
      \<and> price p = Some (Fin (51 / 2)))
   \<and> (\<exists>p. save env_ref coupon_discount = Inr p
      \<and> price p = Some (Fin 0) \<and> benefit_type p = Some (JStr ''Absolute'')
      \<and> benefit_value p = Some (Fin 30))"
proof
  have f: "findWhere (products (store coupon_enrollment (JStr ''course-v1:Org+101+2024'')))
             (model_get coupon_enrollment ''seat_type'')
           = Some \<lparr>certificate_type = JStr ''honor'', stockrecords = [\<lparr>sr_id = JStr ''5''\<rparr>]\<rparr>"
    by (simp add: coupon_enrollment_fields coupon_honor_attrs findWhere_honor)
  have ct: "model_get coupon_enrollment ''code_type'' = JStr ''enrollment''"
    by (simp add: model_get_def coupon_enrollment_fields)
  have pr: "parseFloat env_ref (model_get coupon_enrollment ''price'') = Fin (51 / 2)"
    by (simp add: model_get_def coupon_enrollment_fields parse_defs)
  from save_enrollment_discount [OF coupon_enrollment_fields(1) f, of env_ref] ct pr
  show "\<exists>p. save env_ref coupon_enrollment = Inr p
      \<and> benefit_type p = Some (JStr ''Percentage'') \<and> benefit_value p = Some (Fin 100)
      \<and> price p = Some (Fin (51 / 2))"
    by auto
next
  have f: "findWhere (products (store coupon_discount (JStr ''course-v1:Org+101+2024'')))
             (model_get coupon_discount ''seat_type'')
           = Some \<lparr>certificate_type = JStr ''honor'', stockrecords = [\<lparr>sr_id = JStr ''5''\<rparr>]\<rparr>"
    by (simp add: coupon_discount_fields coupon_honor_attrs findWhere_honor)
  have ct: "model_get coupon_discount ''code_type'' = JStr ''discount''"
    by (simp add: model_get_def coupon_discount_fields)
  have bt: "model_get coupon_discount ''benefit_type'' = JStr ''Absolute''"
    by (simp add: model_get_def coupon_discount_fields)
  have bv: "parseFloat env_ref (model_get coupon_discount ''benefit_value'') = Fin 30"
    by (simp add: model_get_def coupon_discount_fields parse_defs)
  from save_enrollment_discount [OF coupon_discount_fields(1) f, of env_ref] ct bt bv
  show "\<exists>p. save env_ref coupon_discount = Inr p
      \<and> price p = Some (Fin 0) \<and> benefit_type p = Some (JStr ''Absolute'')
      \<and> benefit_value p = Some (Fin 30)"
    by auto
qed

text \<open>
  What \<^verbatim>\<open>save\<close> computes for the quantity (lines 171 to 176): 1 when the
  voucher type is not \<^verbatim>\<open>Single use\<close> or \<^verbatim>\<open>_.isEmpty\<close> holds of
  the coupon's quantity, and \<^verbatim>\<open>parseInt\<close> of the coupon's quantity otherwise.
\<close>

lemma save_quantity:
  assumes "course st = Some cid"
    and "findWhere (products (store st cid)) (model_get st ''seat_type'') = Some seat"
  shows "\<exists>p. save E st = Inr p
     \<and> quantity p =
         (if model_get st ''voucher_type'' \<noteq> JStr ''Single use'' \<or> isEmpty (model_get st ''quantity'')
          then Fin 1 else parseInt E (model_get st ''quantity''))"
  using save_found [OF assms, of E] by blast

text \<open>
  \<^verbatim>\<open>_.isEmpty\<close> and the specification's "unset" agree on every value that is
  not a number or a boolean, and there \<^verbatim>\<open>save\<close> computes the quantity of the
  specification.
\<close>

lemma isEmpty_quantity_unset:
  assumes "v = JUndefined \<or> v = JNull \<or> (\<exists>s. v = JStr s)"
  shows "isEmpty v = quantity_unset v"
  using assms by (auto simp: quantity_unset_def)

lemma save_quantity_agrees:
  assumes "course st = Some cid"
    and "findWhere (products (store st cid)) (model_get st ''seat_type'') = Some seat"
    and "model_get st ''quantity'' = JUndefined \<or> model_get st ''quantity'' = JNull
         \<or> (\<exists>s. model_get st ''quantity'' = JStr s)"
  shows "\<exists>p. save E st = Inr p \<and> quantity p = spec_quantity E st"
  using save_quantity [OF assms(1,2), of E] isEmpty_quantity_unset [OF assms(3)]
  by (simp add: spec_quantity_def)

text \<open>
  A quantity typed as text is parsed; the initial quantity, the number 1, and any other
  number are empty for \<^verbatim>\<open>_.isEmpty\<close> and give 1.
\<close>

lemma save_quantity_examples:
  "(\<exists>p. save env_ref coupon_single_use = Inr p \<and> quantity p = Fin 5)
   \<and> (\<exists>p. save env_ref coupon_honor = Inr p \<and> quantity p = Fin 1)
   \<and> (\<exists>p. save env_ref coupon_single_use_number = Inr p \<and> quantity p = Fin 1)"
proof (intro conjI)
  have f: "findWhere (products (store coupon_single_use (JStr ''course-v1:Org+101+2024'')))
             (model_get coupon_single_use ''seat_type'')
           = Some \<lparr>certificate_type = JStr ''honor'', stockrecords = [\<lparr>sr_id = JStr ''5''\<rparr>]\<rparr>"
    by (simp add: coupon_single_use_fields coupon_honor_attrs findWhere_honor)
  have q: "(if model_get coupon_single_use ''voucher_type'' \<noteq> JStr ''Single use''
               \<or> isEmpty (model_get coupon_single_use ''quantity'')
            then Fin 1 else parseInt env_ref (model_get coupon_single_use ''quantity'')) = Fin 5"
    by (simp add: model_get_def coupon_single_use_fields parse_defs)
  from save_quantity [OF coupon_single_use_fields(1) f, of env_ref]
  show "\<exists>p. save env_ref coupon_single_use = Inr p \<and> quantity p = Fin 5"
    unfolding q .
next
  have f: "findWhere (products (store coupon_honor (JStr ''course-v1:Org+101+2024'')))
             (model_get coupon_honor ''seat_type'')
           = Some \<lparr>certificate_type = JStr ''honor'', stockrecords = [\<lparr>sr_id = JStr ''5''\<rparr>]\<rparr>"
    by (simp add: coupon_honor_store coupon_honor_attrs findWhere_honor)
  have q: "(if model_get coupon_honor ''voucher_type'' \<noteq> JStr ''Single use''
               \<or> isEmpty (model_get coupon_honor ''quantity'')
            then Fin 1 else parseInt env_ref (model_get coupon_honor ''quantity'')) = Fin 1"
    by (simp add: model_get_def coupon_honor_attrs)
  from save_quantity [OF coupon_honor_course f, of env_ref]
  show "\<exists>p. save env_ref coupon_honor = Inr p \<and> quantity p = Fin 1"
    unfolding q .
next
  have f: "findWhere (products (store coupon_single_use_number (JStr ''course-v1:Org+101+2024'')))
             (model_get coupon_single_use_number ''seat_type'')
           = Some \<lparr>certificate_type = JStr ''honor'', stockrecords = [\<lparr>sr_id = JStr ''5''\<rparr>]\<rparr>"
    by (simp add: coupon_single_use_number_fields coupon_honor_attrs findWhere_honor)
  have q: "(if model_get coupon_single_use_number ''voucher_type'' \<noteq> JStr ''Single use''
               \<or> isEmpty (model_get coupon_single_use_number ''quantity'')
            then Fin 1 else parseInt env_ref (model_get coupon_single_use_number ''quantity''))
           = Fin 1"
    by (simp add: model_get_def coupon_single_use_number_fields)
  from save_quantity [OF coupon_single_use_number_fields(1) f, of env_ref]
  show "\<exists>p. save env_ref coupon_single_use_number = Inr p \<and> quantity p = Fin 1"
    unfolding q .
qed

text \<open>
  Claim C3. The claim fails on the code. On a \<^verbatim>\<open>Single use\<close> coupon whose
  quantity is the number 7 the specification's quantity is 7: the number is not unset.
  \<^verbatim>\<open>save\<close> sends 1, because \<^verbatim>\<open>_.isEmpty\<close> holds of every number.
  The same coupon with the quantity as the text \<^verbatim>\<open>5\<close> sends 5.
\<close>

theorem save_quantity_number:
  "model_get coupon_single_use_number ''voucher_type'' = JStr ''Single use''
   \<and> model_get coupon_single_use_number ''quantity'' = JNum (Fin 7)
   \<and> \<not> quantity_unset (model_get coupon_single_use_number ''quantity'')
   \<and> spec_quantity env_ref coupon_single_use_number = Fin 7
   \<and> (\<exists>p. save env_ref coupon_single_use_number = Inr p \<and> quantity p = Fin 1)
   \<and> (\<exists>p. save env_ref coupon_single_use = Inr p \<and> quantity p = Fin 5)"
proof -
  have a: "model_get coupon_single_use_number ''voucher_type'' = JStr ''Single use''"
          "model_get coupon_single_use_number ''quantity'' = JNum (Fin 7)"
    by (simp_all add: model_get_def coupon_single_use_number_fields)
  have b: "\<not> quantity_unset (JNum (Fin 7))"
    by (simp add: quantity_unset_def)
  have c: "parseInt env_ref (JNum (Fin 7)) = Fin 7"
    by (simp add: env_ref_def is_plain_int_def)
  have d: "spec_quantity env_ref coupon_single_use_number = Fin 7"
    by (simp add: spec_quantity_def a b c)
  from a b d save_quantity_examples show ?thesis by simp
qed

text \<open>The payload's quantity is not the specification's.\<close>

theorem save_quantity_number_witness:
  "\<exists>p. save env_ref coupon_single_use_number = Inr p
     \<and> quantity p \<noteq> spec_quantity env_ref coupon_single_use_number"
proof -
  from save_quantity_number obtain p
    where "save env_ref coupon_single_use_number = Inr p" and "quantity p = Fin 1"
      and "spec_quantity env_ref coupon_single_use_number = Fin 7"
    by blast
  then have "save env_ref coupon_single_use_number = Inr p
     \<and> quantity p \<noteq> spec_quantity env_ref coupon_single_use_number"
    by simp
  then show ?thesis by blast
qed

text \<open>
  Claim C6. The stock record ids of the payload are \<^verbatim>\<open>parseInt\<close> of the ids of
  the stock records of the seat that \<^verbatim>\<open>findWhere\<close> returns, which is a product
  of the course whose certificate type is the coupon's seat type.
\<close>

theorem save_stock_record_ids:
  assumes "course st = Some cid"
    and "findWhere (products (store st cid)) (model_get st ''seat_type'') = Some seat"
  shows "seat \<in> set (products (store st cid))
     \<and> certificate_type seat = model_get st ''seat_type''
     \<and> (\<exists>p. save E st = Inr p
          \<and> stock_record_ids p = map (\<lambda>r. parseInt E (sr_id r)) (stockrecords seat))"
  using save_found [OF assms, of E] findWhere_Some [OF assms(2)] by blast

text \<open>The round trip of the specification: the id \<^verbatim>\<open>"5"\<close> becomes the number 5.\<close>

theorem save_stock_record_ids_witness:
  "products (store coupon_honor (JStr ''course-v1:Org+101+2024''))
     = [\<lparr>certificate_type = JStr ''honor'', stockrecords = [\<lparr>sr_id = JStr ''5''\<rparr>]\<rparr>]
   \<and> model_get coupon_honor ''seat_type'' = JStr ''honor''
   \<and> (\<exists>p. save env_ref coupon_honor = Inr p \<and> stock_record_ids p = [Fin 5])"
proof -
  have f: "findWhere (products (store coupon_honor (JStr ''course-v1:Org+101+2024'')))
             (model_get coupon_honor ''seat_type'')
           = Some \<lparr>certificate_type = JStr ''honor'', stockrecords = [\<lparr>sr_id = JStr ''5''\<rparr>]\<rparr>"
    by (simp add: coupon_honor_store coupon_honor_attrs findWhere_honor)
  have five: "parseInt env_ref (JStr ''5'') = Fin 5"
    by (simp add: parse_defs)
  from save_stock_record_ids [OF coupon_honor_course f, of env_ref] five
  have "\<exists>p. save env_ref coupon_honor = Inr p \<and> stock_record_ids p = [Fin 5]"
    by simp
  then show ?thesis
    by (simp add: coupon_honor_store course_honor_def model_get_def coupon_honor_attrs)
qed

text \<open>
  Claim C7. When no product of the course has the coupon's seat type as its certificate
  type, \<^verbatim>\<open>save\<close> throws (a TypeError, from reading a property of
  \<^verbatim>\<open>undefined\<close>) before it has built the payload or called Backbone's
  \<^verbatim>\<open>save\<close>.
\<close>

theorem save_seat_missing:
  assumes "course st = Some cid"
    and "\<forall>p\<in>set (products (store st cid)).
           \<not> strict_eq (model_get st ''seat_type'') (certificate_type p)"
  shows "save E st = Inl TypeError"
proof -
  from assms(2) have "findWhere (products (store st cid)) (model_get st ''seat_type'') = None"
    by (simp only: findWhere_None)
  with assms(1) show ?thesis by (simp add: save_def)
qed

theorem save_seat_missing_witness:
  "course coupon_verified = Some (JStr ''course-v1:Org+101+2024'')
   \<and> model_get coupon_verified ''seat_type'' = JStr ''verified''
   \<and> map certificate_type (products (store coupon_verified (JStr ''course-v1:Org+101+2024'')))
        = [JStr ''honor'']
   \<and> save env_ref coupon_verified = Inl TypeError"
proof -
  have h: "\<forall>p\<in>set (products (store coupon_verified (JStr ''course-v1:Org+101+2024''))).
           \<not> strict_eq (model_get coupon_verified ''seat_type'') (certificate_type p)"
    by (simp add: coupon_verified_fields course_honor_def model_get_def strict_eq_def)
  from save_seat_missing [OF coupon_verified_fields(1) h, of env_ref]
  show ?thesis
    by (simp add: coupon_verified_fields course_honor_def model_get_def)
qed

subsection \<open>The handlers\<close>

text \<open>
  Claim C8. On a course without seats \<^verbatim>\<open>fillFromCourse\<close> throws: it has
  stored the empty list of seat types, and it leaves every attribute, the seat type among
  them, as it was.
\<close>

theorem fillFromCourse_no_seats:
  assumes "seats E c = []"
  shows "snd (fillFromCourse E c st) = Threw TypeError
     \<and> attrs (fst (fillFromCourse E c st)) = attrs st
     \<and> seatTypes (fst (fillFromCourse E c st)) = Some []"
  using assms by (simp add: fillFromCourse_def)

theorem fillFromCourse_no_seats_witness:
  "seats env_ref \<lparr>products = []\<rparr> = []
   \<and> snd (fillFromCourse env_ref \<lparr>products = []\<rparr> (construct env_ref [])) = Threw TypeError
   \<and> model_get (fst (fillFromCourse env_ref \<lparr>products = []\<rparr> (construct env_ref []))) ''seat_type''
        = JUndefined
   \<and> snd (fetched env_ref (JStr ''course-v1:Org+101+2024'') \<lparr>products = []\<rparr>
        (step env_ref (Set ''course_id'' (JStr ''course-v1:Org+101+2024'')) (construct env_ref [])))
        = Threw TypeError"
proof -
  have h: "seats env_ref \<lparr>products = []\<rparr> = []" by (simp add: env_ref_def)
  from fillFromCourse_no_seats [OF h, of "construct env_ref []"] h
  have a: "snd (fillFromCourse env_ref \<lparr>products = []\<rparr> (construct env_ref [])) = Threw TypeError
   \<and> model_get (fst (fillFromCourse env_ref \<lparr>products = []\<rparr> (construct env_ref []))) ''seat_type''
        = JUndefined"
    by (simp add: model_get_def run_defs)
  have b: "snd (fetched env_ref (JStr ''course-v1:Org+101+2024'') \<lparr>products = []\<rparr>
        (step env_ref (Set ''course_id'' (JStr ''course-v1:Org+101+2024'')) (construct env_ref [])))
        = Threw TypeError"
    by (simp add: run_defs)
  from h a b show ?thesis by simp
qed

text \<open>
  Claim C10. A coupon that has just been constructed has the quantity 1, whatever
  attributes the constructor was given; constructed from nothing, it has no other
  attribute.
\<close>

theorem construct_quantity:
  "model_get (construct E given) ''quantity'' = JNum (Fin 1)
   \<and> attrs (construct E []) = (\<lambda>name. JUndefined)(''quantity'' := JNum (Fin 1))"
  by (simp add: construct_def initialize_def model_set_def put_def model_get_def empty_state_def
      Let_def)

theorem construct_quantity_witness:
  "model_get (construct env_ref [(''quantity'', JNum (Fin 5)), (''voucher_type'', JStr ''Multi-use'')])
      ''quantity'' = JNum (Fin 1)"
  using construct_quantity [of env_ref "[(''quantity'', JNum (Fin 5)), (''voucher_type'', JStr ''Multi-use'')]"]
  by simp

subsection \<open>The two dates\<close>

text \<open>
  Claim C4. When both dates are strings that \<^verbatim>\<open>moment\<close> parses in the format
  \<^verbatim>\<open>MM/DD/YYYY\<close> (the empty string is never one), validation reports nothing on
  either date if the start is strictly before the end, and otherwise reports the order
  error on both.
\<close>

theorem dates_in_order:
  assumes "model_get st ''start_date'' = JStr s" and "model_get st ''end_date'' = JStr e"
    and "moment E (JStr s) dateFormat = Some a" and "moment E (JStr e) dateFormat = Some b"
    and "moment E (JStr []) dateFormat = None"
  shows "(a < b \<longrightarrow> validation E st ''start_date'' = None \<and> validation E st ''end_date'' = None)
     \<and> (\<not> a < b \<longrightarrow>
          validation E st ''start_date'' = Some (Message ''Must occur before end date'')
          \<and> validation E st ''end_date'' = Some (Message ''Must occur after start date''))"
proof -
  from assms(3,5) have s: "s \<noteq> []" by auto
  from assms(4,5) have e: "e \<noteq> []" by auto
  have sd: "validation E st ''start_date''
              = (if a < b then None else Some (Message ''Must occur before end date''))"
    using assms s by (simp add: validation_def start_date_def)
  have ed: "validation E st ''end_date''
              = (if a < b then None else Some (Message ''Must occur after start date''))"
    using assms e by (simp add: validation_def end_date_def)
  show ?thesis by (simp add: sd ed)
qed

theorem dates_in_order_witness:
  "validation env_ref coupon_dates_ordered ''start_date'' = None
   \<and> validation env_ref coupon_dates_ordered ''end_date'' = None
   \<and> validation env_ref coupon_dates_reversed ''start_date''
        = Some (Message ''Must occur before end date'')
   \<and> validation env_ref coupon_dates_reversed ''end_date''
        = Some (Message ''Must occur after start date'')"
proof -
  have o: "model_get coupon_dates_ordered ''start_date'' = JStr ''01/01/2024''"
          "model_get coupon_dates_ordered ''end_date'' = JStr ''02/01/2024''"
    by (simp_all add: coupon_dates_ordered_def run_defs)
  have r: "model_get coupon_dates_reversed ''start_date'' = JStr ''02/01/2024''"
          "model_get coupon_dates_reversed ''end_date'' = JStr ''01/01/2024''"
    by (simp_all add: coupon_dates_reversed_def run_defs)
  from dates_in_order [OF o moment_ref_values(1) moment_ref_values(2) moment_ref_values(3)]
       dates_in_order [OF r moment_ref_values(2) moment_ref_values(1) moment_ref_values(3)]
  show ?thesis by simp
qed

subsection \<open>The quantity of a single-use coupon\<close>

text \<open>Only a write to the quantity itself can move it away from 1.\<close>

lemma attrs_loadCourse: "attrs (loadCourse E v st) = attrs st"
  by (simp add: loadCourse_def)

lemma quantity_model_set:
  assumes "name \<noteq> ''quantity''" and "attrs st ''quantity'' = JNum (Fin 1)"
  shows "attrs (model_set E name v st) ''quantity'' = JNum (Fin 1)"
  using assms
  by (simp add: model_set_def Let_def attrs_loadCourse changeVoucherType_def put_def)

lemma quantity_fillFromCourse:
  "attrs (fst (fillFromCourse E c st)) ''quantity'' = attrs st ''quantity''"
  by (simp add: fillFromCourse_def Let_def put_def split: list.splits)

lemma quantity_run_listeners:
  "attrs (fst (run_listeners E c n st)) ''quantity'' = attrs st ''quantity''"
proof (induction n arbitrary: st)
  case 0
  show ?case by simp
next
  case (Suc n)
  obtain st1 r where f: "fillFromCourse E c st = (st1, r)" by (cases "fillFromCourse E c st")
  have q: "attrs st1 ''quantity'' = attrs st ''quantity''"
    using quantity_fillFromCourse [of E c st] f by simp
  show ?case
  proof (cases r)
    case Done
    with f q Suc.IH [of st1] show ?thesis by simp
  next
    case (Threw e)
    with f q show ?thesis by simp
  qed
qed

lemma quantity_fetched:
  "attrs (fst (fetched E cid c st)) ''quantity'' = attrs st ''quantity''"
  by (simp add: fetched_def Let_def quantity_run_listeners)

text \<open>
  Claim C2, as amended. \<^verbatim>\<open>changeVoucherType\<close> with
  \<^verbatim>\<open>Single use\<close> sets the quantity to 1 whatever it was, so does changing the
  voucher type to \<^verbatim>\<open>Single use\<close>, and every later event other than a write to
  the quantity keeps the quantity at 1.
\<close>

theorem single_use_sets_quantity:
  "model_get (changeVoucherType (JStr ''Single use'') st) ''quantity'' = JNum (Fin 1)
   \<and> (model_get st ''voucher_type'' \<noteq> JStr ''Single use'' \<longrightarrow>
        model_get (step E (Set ''voucher_type'' (JStr ''Single use'')) st) ''quantity'' = JNum (Fin 1))
   \<and> ((\<forall>v. ev \<noteq> Set ''quantity'' v) \<and> model_get st ''quantity'' = JNum (Fin 1) \<longrightarrow>
        model_get (step E ev st) ''quantity'' = JNum (Fin 1))"
proof (intro conjI impI)
  show "model_get (changeVoucherType (JStr ''Single use'') st) ''quantity'' = JNum (Fin 1)"
    by (simp add: changeVoucherType_def strict_eq_def put_def model_get_def)
next
  assume "model_get st ''voucher_type'' \<noteq> JStr ''Single use''"
  then show "model_get (step E (Set ''voucher_type'' (JStr ''Single use'')) st) ''quantity''
               = JNum (Fin 1)"
    by (simp add: model_set_def Let_def changeVoucherType_def strict_eq_def put_def model_get_def)
next
  assume a: "(\<forall>v. ev \<noteq> Set ''quantity'' v) \<and> model_get st ''quantity'' = JNum (Fin 1)"
  show "model_get (step E ev st) ''quantity'' = JNum (Fin 1)"
  proof (cases ev)
    case (Set name v)
    with a have "name \<noteq> ''quantity''" by auto
    with a Set show ?thesis by (simp add: model_get_def quantity_model_set)
  next
    case (Fetched cid c)
    with a show ?thesis by (simp add: model_get_def quantity_fetched)
  qed
qed

theorem single_use_sets_quantity_witness:
  "model_get (step env_ref (Set ''quantity'' (JStr ''5'')) coupon_honor) ''quantity'' = JStr ''5''
   \<and> model_get (step env_ref (Set ''voucher_type'' (JStr ''Single use''))
        (step env_ref (Set ''quantity'' (JStr ''5'')) coupon_honor)) ''quantity'' = JNum (Fin 1)
   \<and> model_get (step env_ref (Set ''title'' (JStr ''Spring''))
        (step env_ref (Set ''voucher_type'' (JStr ''Single use''))
           (step env_ref (Set ''quantity'' (JStr ''5'')) coupon_honor))) ''quantity'' = JNum (Fin 1)"
proof -
  let ?s1 = "step env_ref (Set ''quantity'' (JStr ''5'')) coupon_honor"
  let ?s2 = "step env_ref (Set ''voucher_type'' (JStr ''Single use'')) ?s1"
  have q1: "model_get ?s1 ''quantity'' = JStr ''5''"
    by (simp add: model_set_def put_def model_get_def Let_def)
  have v1: "model_get ?s1 ''voucher_type'' \<noteq> JStr ''Single use''"
    by (simp add: model_set_def put_def model_get_def Let_def coupon_honor_attrs)
  have q2: "model_get ?s2 ''quantity'' = JNum (Fin 1)"
    using single_use_sets_quantity [of ?s1 env_ref] v1 by blast
  have ne: "\<forall>v. Set ''title'' (JStr ''Spring'') \<noteq> Set ''quantity'' v" by simp
  have q3: "model_get (step env_ref (Set ''title'' (JStr ''Spring'')) ?s2) ''quantity'' = JNum (Fin 1)"
    using single_use_sets_quantity [of ?s2 env_ref "Set ''title'' (JStr ''Spring'')"] ne q2 by blast
  from q1 q2 q3 show ?thesis by blast
qed

text \<open>
  Claim C2 as stated fails: a quantity typed in after the voucher type was chosen stays,
  and \<^verbatim>\<open>save\<close> sends it.
\<close>

theorem single_use_quantity_counterexample:
  "reachable env_ref coupon_single_use
   \<and> model_get coupon_single_use ''voucher_type'' = JStr ''Single use''
   \<and> model_get coupon_single_use ''quantity'' = JStr ''5''
   \<and> model_get coupon_single_use ''quantity'' \<noteq> JNum (Fin 1)
   \<and> (\<exists>p. save env_ref coupon_single_use = Inr p \<and> quantity p = Fin 5)"
proof -
  have r: "reachable env_ref coupon_single_use"
    unfolding coupon_single_use_def by (intro reachable.stepped reachable_coupon_honor)
  have f: "findWhere (products (store coupon_single_use (JStr ''course-v1:Org+101+2024'')))
             (model_get coupon_single_use ''seat_type'')
           = Some \<lparr>certificate_type = JStr ''honor'', stockrecords = [\<lparr>sr_id = JStr ''5''\<rparr>]\<rparr>"
    by (simp add: coupon_single_use_fields coupon_honor_attrs findWhere_honor)
  have q: "(if model_get coupon_single_use ''voucher_type'' \<noteq> JStr ''Single use''
               \<or> isEmpty (model_get coupon_single_use ''quantity'')
            then Fin 1 else parseInt env_ref (model_get coupon_single_use ''quantity'')) = Fin 5"
    by (simp add: model_get_def coupon_single_use_fields parse_defs)
  from save_found [OF coupon_single_use_fields(1) f, of env_ref]
  have s: "\<exists>p. save env_ref coupon_single_use = Inr p \<and> quantity p = Fin 5"
    unfolding q by blast
  from r s show ?thesis
    by (simp add: model_get_def coupon_single_use_fields)
qed

subsection \<open>Changing the course id\<close>

text \<open>Neither the handler of the course's change event nor a completed fetch touches
  the relation.\<close>

lemma course_fillFromCourse: "course (fst (fillFromCourse E c st)) = course st"
  by (simp add: fillFromCourse_def Let_def put_def split: list.splits)

lemma course_run_listeners: "course (fst (run_listeners E c n st)) = course st"
proof (induction n arbitrary: st)
  case 0
  show ?case by simp
next
  case (Suc n)
  obtain st1 r where f: "fillFromCourse E c st = (st1, r)" by (cases "fillFromCourse E c st")
  have q: "course st1 = course st"
    using course_fillFromCourse [of E c st] f by simp
  show ?case
  proof (cases r)
    case Done
    with f q Suc.IH [of st1] show ?thesis by simp
  next
    case (Threw e)
    with f q show ?thesis by simp
  qed
qed

lemma course_fetched: "course (fst (fetched E cid c st)) = course st"
  by (simp add: fetched_def Let_def course_run_listeners)

lemma course_id_change_valid:
  assumes "matches_courseId E v" and "model_get st ''course_id'' \<noteq> v"
  shows "fetches (step E (Set ''course_id'' v) st) = fetches st @ [v]
     \<and> listening (step E (Set ''course_id'' v) st) = listening st @ [v]
     \<and> course (step E (Set ''course_id'' v) st) = Some v
     \<and> model_get (step E (Set ''course_id'' v) st) ''course_id'' = v"
  using assms
  by (simp add: model_set_def Let_def loadCourse_def isValid_def validation_def put_def
      model_get_def)

lemma course_id_change_invalid:
  assumes "\<not> matches_courseId E v"
  shows "fetches (step E (Set ''course_id'' v) st) = fetches st
     \<and> listening (step E (Set ''course_id'' v) st) = listening st
     \<and> course (step E (Set ''course_id'' v) st) = course st"
  using assms
  by (simp add: model_set_def Let_def loadCourse_def isValid_def validation_def put_def
      model_get_def)

text \<open>
  Claim C9, as amended. A change to a course id that matches the pattern starts exactly
  one fetch and adds exactly one listener, keeping the earlier ones; a change to an id
  that does not match starts none. After two such changes the coupon's course is the
  second one, and it stays the second one in whichever order the two fetches complete.
\<close>

theorem course_id_changes:
  assumes "matches_courseId E v1" and "matches_courseId E v2"
    and "model_get st ''course_id'' \<noteq> v1" and "v1 \<noteq> v2"
  shows "fetches (step E (Set ''course_id'' v1) st) = fetches st @ [v1]
     \<and> listening (step E (Set ''course_id'' v1) st) = listening st @ [v1]
     \<and> fetches (step E (Set ''course_id'' v2) (step E (Set ''course_id'' v1) st))
         = fetches st @ [v1, v2]
     \<and> listening (step E (Set ''course_id'' v2) (step E (Set ''course_id'' v1) st))
         = listening st @ [v1, v2]
     \<and> course (step E (Set ''course_id'' v2) (step E (Set ''course_id'' v1) st)) = Some v2
     \<and> course (step E (Fetched v2 c2) (step E (Fetched v1 c1)
          (step E (Set ''course_id'' v2) (step E (Set ''course_id'' v1) st)))) = Some v2
     \<and> course (step E (Fetched v1 c1) (step E (Fetched v2 c2)
          (step E (Set ''course_id'' v2) (step E (Set ''course_id'' v1) st)))) = Some v2
     \<and> (\<not> matches_courseId E v3 \<longrightarrow>
          fetches (step E (Set ''course_id'' v3) st) = fetches st
          \<and> listening (step E (Set ''course_id'' v3) st) = listening st)"
proof -
  let ?s1 = "step E (Set ''course_id'' v1) st"
  let ?s2 = "step E (Set ''course_id'' v2) ?s1"
  note a = course_id_change_valid [OF assms(1) assms(3)]
  from a assms(4) have "model_get ?s1 ''course_id'' \<noteq> v2" by simp
  note b = course_id_change_valid [OF assms(2) this]
  have c: "course (step E (Fetched x c) (step E (Fetched y d) ?s2)) = course ?s2" for x y c d
    by (simp add: course_fetched)
  have d: "\<not> matches_courseId E v3 \<longrightarrow>
          fetches (step E (Set ''course_id'' v3) st) = fetches st
          \<and> listening (step E (Set ''course_id'' v3) st) = listening st"
    using course_id_change_invalid [of E v3 st] by blast
  from a b d show ?thesis unfolding c by simp
qed

theorem course_id_changes_witness:
  "fetches coupon_two_courses = [JStr ''course-v1:Org+101+2024'', JStr ''course-v1:Org+102+2024'']
   \<and> listening coupon_two_courses
        = [JStr ''course-v1:Org+101+2024'', JStr ''course-v1:Org+102+2024'']
   \<and> course (step env_ref (Fetched (JStr ''course-v1:Org+101+2024'') course_honor)
        (step env_ref (Fetched (JStr ''course-v1:Org+102+2024'') \<lparr>products = []\<rparr>)
           coupon_two_courses)) = Some (JStr ''course-v1:Org+102+2024'')"
proof -
  have m: "matches_courseId env_ref (JStr ''course-v1:Org+101+2024'')"
          "matches_courseId env_ref (JStr ''course-v1:Org+102+2024'')"
    by (simp_all add: courseId_def trim_def is_ws_def)
  have n: "model_get (construct env_ref []) ''course_id'' \<noteq> JStr ''course-v1:Org+101+2024''"
    by (simp add: run_defs)
  have d: "JStr ''course-v1:Org+101+2024'' \<noteq> JStr ''course-v1:Org+102+2024''" by simp
  have e: "fetches (construct env_ref []) = [] \<and> listening (construct env_ref []) = []"
    by (simp add: run_defs)
  from course_id_changes [OF m n d, of "\<lparr>products = []\<rparr>" course_honor] e
  show ?thesis unfolding coupon_two_courses_def by simp
qed

text \<open>
  Claim C9 as stated fails: after two changes two listeners are registered, and the
  first still runs when its course arrives, setting the seat type from a course that is
  no longer the coupon's.
\<close>

theorem one_subscription_counterexample:
  "listening coupon_two_courses
     = [JStr ''course-v1:Org+101+2024'', JStr ''course-v1:Org+102+2024'']
   \<and> \<not> length (listening coupon_two_courses) \<le> 1
   \<and> course coupon_two_courses = Some (JStr ''course-v1:Org+102+2024'')
   \<and> model_get (step env_ref (Fetched (JStr ''course-v1:Org+101+2024'') course_honor)
        coupon_two_courses) ''seat_type'' = JStr ''honor''"
  by (simp add: coupon_two_courses_def course_honor_def run_defs)

end
